theory Spec2Isabelle
  imports Main
begin

section \<open>The conversion widget of \<^verbatim>\<open>src/components/file-converter.tsx\<close>\<close>

text \<open>
  The component \<^verbatim>\<open>FileConverter\<close> keeps seven React state cells and reacts to user events
  with handlers that call host (browser) primitives. The embedding makes both explicit:
  \<^item> the state cells are the first seven fields of the record \<open>state\<close>; the remaining
    fields log the effects the handlers have on the host (notifications, live object
    URLs, triggered downloads, constructed recorders, console output);
  \<^item> what the host does in one run of a handler is an oracle, the record \<open>host\<close>: which
    event a \<^verbatim>\<open>FileReader\<close> fires, whether a decoder fires \<^verbatim>\<open>onload\<close> or \<^verbatim>\<open>onerror\<close>,
    whether a constructor throws, what the encoders return;
  \<^item> a JavaScript promise is a value of \<open>'a promise\<close>: resolved, rejected, or never settled.
    A handler that awaits a promise which never settles stays suspended: its model returns
    the state reached at the await.
\<close>

subsection \<open>Data\<close>

datatype ConversionType = Image | Video

text \<open>A \<^verbatim>\<open>File\<close>: display name, declared MIME type (\<^verbatim>\<open>file.type\<close>) and opaque content.\<close>

record File =
  file_name :: string
  file_type :: string
  file_bits :: string

record Blob =
  blob_parts :: "string list"
  blob_type :: string

record toast =
  title :: string
  description :: string
  variant :: "string option"

record MediaRecorderOptions =
  mimeType :: string
  videoBitsPerSecond :: int

text \<open>The anchor element that \<^verbatim>\<open>handleConvert\<close> creates and clicks.\<close>

record link =
  href :: string
  download :: string

record state =
  "file" :: "File option"
  converting :: bool
  loading :: bool
  progress :: int
  type :: ConversionType
  format :: string
  preview :: string
  toasts :: "toast list"
  object_urls :: "string list"
  downloads :: "link list"
  recorders :: "MediaRecorderOptions list"
  console :: "string list"

text \<open>The values of \<^verbatim>\<open>useState\<close> at the first render, with no effect logged yet.\<close>

definition initial :: state where
  "initial = \<lparr>file = None, converting = False, loading = False, progress = 0,
     type = Image, format = [], preview = [], toasts = [], object_urls = [],
     downloads = [], recorders = [], console = []\<rparr>"



definition IMAGE_MIME_TYPES :: "string list" where
  "IMAGE_MIME_TYPES = [''image/jpeg'', ''image/png'', ''image/webp'', ''image/gif'',
     ''image/bmp'', ''image/avif'']"

definition VIDEO_MIME_TYPES :: "string list" where
  "VIDEO_MIME_TYPES = [''video/mp4'', ''video/webm'', ''video/ogg'', ''video/quicktime'']"

subsection \<open>The host\<close>

text \<open>
  \<^verbatim>\<open>reader.readAsDataURL(file)\<close> either throws at the call, or later fires \<^verbatim>\<open>load\<close> with
  the data URI as result, or later fires \<^verbatim>\<open>error\<close>.
\<close>

datatype read_outcome = ReadThrows | ReadLoad string | ReadError

datatype 'a promise = Resolved 'a | Rejected | Pending

text \<open>
  What the host does during one run of a handler. Each handler makes at most one call of
  \<^verbatim>\<open>readAsDataURL\<close> and at most one of \<^verbatim>\<open>URL.createObjectURL\<close>, so one outcome of each is
  enough.
  \<^item> \<open>readAsDataURL\<close>: the outcome of the read;
  \<^item> \<open>createObjectURL\<close>: the URL handed out, or \<open>None\<close> when the call throws;
  \<^item> \<open>image_loads\<close>: the \<^verbatim>\<open>Image\<close> element fires \<^verbatim>\<open>onload\<close> (otherwise \<^verbatim>\<open>onerror\<close>);
  \<^item> \<open>toBlob\<close>: the argument \<^verbatim>\<open>canvas.toBlob\<close> passes to its callback for a given type,
    \<open>None\<close> for \<^verbatim>\<open>null\<close>;
  \<^item> \<open>toDataURL\<close>: the string \<^verbatim>\<open>canvas.toDataURL\<close> returns for a given type;
  \<^item> \<open>video_loads\<close>: the video element fires \<^verbatim>\<open>onloadedmetadata\<close> (otherwise \<^verbatim>\<open>onerror\<close>);
  \<^item> \<open>captureStream\<close>: \<^verbatim>\<open>canvas.captureStream()\<close> returns a stream (otherwise it throws);
  \<^item> \<open>isTypeSupported\<close>: the constructor of \<^verbatim>\<open>MediaRecorder\<close> accepts the MIME type
    (otherwise it throws);
  \<^item> \<open>frames\<close>: the value of \<^verbatim>\<open>video.currentTime < video.duration\<close> at each animation frame
    delivered so far;
  \<^item> \<open>chunks\<close>: the data the recorder delivers through \<^verbatim>\<open>ondataavailable\<close>.
\<close>

record host =
  readAsDataURL :: read_outcome
  createObjectURL :: "string option"
  image_loads :: bool
  toBlob :: "string \<Rightarrow> Blob option"
  toDataURL :: "string \<Rightarrow> string"
  video_loads :: bool
  captureStream :: bool
  isTypeSupported :: "string \<Rightarrow> bool"
  frames :: "bool list"
  chunks :: "string list"

subsection \<open>Notifications and host calls\<close>

definition toast_invalid :: toast where
  "toast_invalid = \<lparr>title = ''Invalid file type'',
     description = ''Please upload an image or video file.'',
     variant = Some ''destructive''\<rparr>"

definition toast_complete :: toast where
  "toast_complete = \<lparr>title = ''Conversion complete'',
     description = ''Your file has been converted successfully!'',
     variant = None\<rparr>"

definition toast_failed :: toast where
  "toast_failed = \<lparr>title = ''Conversion failed'',
     description = ''There was an error converting your file.'',
     variant = Some ''destructive''\<rparr>"

text \<open>
  \<^verbatim>\<open>URL.createObjectURL\<close> registers the URL the host hands out; \<^verbatim>\<open>URL.revokeObjectURL\<close>
  releases it (and does nothing for a string that is not a registered URL).
\<close>

definition registerObjectURL :: "string \<Rightarrow> state \<Rightarrow> state" where
  "registerObjectURL url s = s\<lparr>object_urls := object_urls s @ [url]\<rparr>"

definition revokeObjectURL :: "string \<Rightarrow> state \<Rightarrow> state" where
  "revokeObjectURL url s = s\<lparr>object_urls := removeAll url (object_urls s)\<rparr>"

text \<open>\<^verbatim>\<open>link.href = ...; link.download = ...; link.click()\<close>\<close>

definition click_link :: "string \<Rightarrow> string \<Rightarrow> state \<Rightarrow> state" where
  "click_link h d s = s\<lparr>downloads := downloads s @ [\<lparr>href = h, download = d\<rparr>]\<rparr>"

subsection \<open>Reset and acquisition\<close>

definition resetState :: "state \<Rightarrow> state" where
  "resetState s = s\<lparr>file := None, progress := 0, preview := [], format := []\<rparr>"

definition detectFileType :: "File \<Rightarrow> state \<Rightarrow> ConversionType option \<times> state" where
  "detectFileType f s =
     (if file_type f \<in> set IMAGE_MIME_TYPES then (Some Image, s\<lparr>type := Image\<rparr>)
      else if file_type f \<in> set VIDEO_MIME_TYPES then (Some Video, s\<lparr>type := Video\<rparr>)
      else (None, s))"

text \<open>
  \<^verbatim>\<open>createPreview\<close>. Only an exception thrown at the call of \<^verbatim>\<open>readAsDataURL\<close> or of
  \<^verbatim>\<open>createObjectURL\<close> reaches the \<^verbatim>\<open>catch\<close> block. The reader gets an \<^verbatim>\<open>onload\<close>
  handler and no \<^verbatim>\<open>onerror\<close> handler, so a later \<^verbatim>\<open>error\<close> event runs no code.
\<close>

definition createPreview :: "host \<Rightarrow> File \<Rightarrow> ConversionType \<Rightarrow> state \<Rightarrow> state" where
  "createPreview h f fileType s =
     (let s1 = s\<lparr>loading := True\<rparr>;
          caught = s1\<lparr>console := console s1 @ [''Preview creation failed:''],
                      loading := False\<rparr>
      in case fileType of
           Image \<Rightarrow>
             (case readAsDataURL h of
                ReadThrows \<Rightarrow> caught
              | ReadLoad result \<Rightarrow> s1\<lparr>preview := result, loading := False\<rparr>
              | ReadError \<Rightarrow> s1)
         | Video \<Rightarrow>
             (case createObjectURL h of
                None \<Rightarrow> caught
              | Some url \<Rightarrow> (registerObjectURL url s1)\<lparr>preview := url, loading := False\<rparr>))"

definition handleFileChange :: "host \<Rightarrow> File \<Rightarrow> state \<Rightarrow> state" where
  "handleFileChange h f s =
     (case detectFileType f s of
        (None, s1) \<Rightarrow> s1\<lparr>toasts := toasts s1 @ [toast_invalid]\<rparr>
      | (Some fileType, s1) \<Rightarrow>
          createPreview h f fileType (s1\<lparr>file := Some f, progress := 0\<rparr>))"

subsection \<open>Conversion\<close>

text \<open>
  \<^verbatim>\<open>convertImage\<close>. An exception thrown in the promise executor rejects the promise;
  \<^verbatim>\<open>reader.onerror\<close> and \<^verbatim>\<open>img.onerror\<close> are \<^verbatim>\<open>reject\<close>. An exception thrown inside an
  event callback is not seen by the promise, which then never settles.
\<close>

definition convertImage :: "host \<Rightarrow> File \<Rightarrow> string \<Rightarrow> state \<Rightarrow> string promise \<times> state" where
  "convertImage h f fmt s =
     (case readAsDataURL h of
        ReadThrows \<Rightarrow> (Rejected, s)
      | ReadError \<Rightarrow> (Rejected, s)
      | ReadLoad src \<Rightarrow>
          if \<not> image_loads h then (Rejected, s)
          else if fmt = ''gif'' \<or> fmt = ''avif'' then
            (case toBlob h (''image/'' @ fmt) of
               Some blob \<Rightarrow>
                 (case createObjectURL h of
                    Some url \<Rightarrow> (Resolved url, registerObjectURL url s)
                  | None \<Rightarrow> (Pending, s))
             | None \<Rightarrow> (Rejected, s))
          else (Resolved (toDataURL h (''image/'' @ fmt)), s))"

text \<open>
  \<^verbatim>\<open>drawFrame\<close>, run once per animation frame. The list holds the value of
  \<^verbatim>\<open>video.currentTime < video.duration\<close> at each successive run; where the list ends the
  next animation frame has not been delivered yet. The result says whether the recorder
  was stopped.
\<close>

fun drawFrame :: "bool list \<Rightarrow> state \<Rightarrow> bool \<times> state" where
  "drawFrame [] s = (False, s)"
| "drawFrame (playing # later) s =
     (let s1 = s\<lparr>progress := min (progress s + 1) 100\<rparr>
      in if playing then drawFrame later s1 else (True, s1))"

text \<open>
  \<^verbatim>\<open>convertVideo\<close>. \<^verbatim>\<open>canvas.captureStream()\<close> and \<^verbatim>\<open>new MediaRecorder(...)\<close> run inside
  the \<^verbatim>\<open>onloadedmetadata\<close> callback: when one of them throws, neither \<^verbatim>\<open>resolve\<close> nor
  \<^verbatim>\<open>reject\<close> is ever called.
\<close>

definition convertVideo :: "host \<Rightarrow> File \<Rightarrow> string \<Rightarrow> state \<Rightarrow> Blob promise \<times> state" where
  "convertVideo h f fmt s =
     (case readAsDataURL h of
        ReadThrows \<Rightarrow> (Rejected, s)
      | ReadError \<Rightarrow> (Rejected, s)
      | ReadLoad src \<Rightarrow>
          if \<not> video_loads h then (Rejected, s)
          else if \<not> captureStream h then (Pending, s)
          else
            let options = \<lparr>mimeType = ''video/'' @ fmt, videoBitsPerSecond = 8000000\<rparr>;
                actualFormat = (if fmt = ''mov'' then ''mp4'' else fmt);
                options' = options\<lparr>mimeType := ''video/'' @ actualFormat\<rparr>
            in if \<not> isTypeSupported h (mimeType options') then (Pending, s)
               else
                 (case drawFrame (frames h) (s\<lparr>recorders := recorders s @ [options']\<rparr>) of
                    (True, s1) \<Rightarrow>
                      (Resolved \<lparr>blob_parts = chunks h,
                         blob_type = (if fmt = ''mov'' then ''video/quicktime''
                                      else ''video/'' @ fmt)\<rparr>, s1)
                  | (False, s1) \<Rightarrow> (Pending, s1)))"

text \<open>
  The \<^verbatim>\<open>try\<close> statement of \<^verbatim>\<open>handleConvert\<close> is left through its last two statements and
  \<^verbatim>\<open>finally\<close>, or through \<^verbatim>\<open>catch\<close> and \<^verbatim>\<open>finally\<close>. When the awaited promise never
  settles it is not left at all.
\<close>

definition conversion_complete :: "state \<Rightarrow> state" where
  "conversion_complete s =
     s\<lparr>progress := 100, toasts := toasts s @ [toast_complete], converting := False\<rparr>"

definition conversion_failed :: "state \<Rightarrow> state" where
  "conversion_failed s =
     s\<lparr>console := console s @ [''Conversion failed:''],
       toasts := toasts s @ [toast_failed], converting := False\<rparr>"

definition handleConvert :: "host \<Rightarrow> state \<Rightarrow> state" where
  "handleConvert h s =
     (case file s of
        None \<Rightarrow> s
      | Some f \<Rightarrow>
          if format s = [] then s
          else
            let s1 = s\<lparr>converting := True, progress := 0\<rparr>;
                name = ''converted.'' @ format s
            in case type s of
                 Image \<Rightarrow>
                   (case convertImage h f (format s) s1 of
                      (Resolved result, s2) \<Rightarrow>
                        let s3 = click_link result name s2;
                            s4 = (if format s = ''gif'' \<or> format s = ''avif''
                                  then revokeObjectURL result s3 else s3)
                        in conversion_complete s4
                    | (Rejected, s2) \<Rightarrow> conversion_failed s2
                    | (Pending, s2) \<Rightarrow> s2)
               | Video \<Rightarrow>
                   (case convertVideo h f (format s) s1 of
                      (Resolved result, s2) \<Rightarrow>
                        (case createObjectURL h of
                           None \<Rightarrow> conversion_failed s2
                         | Some url \<Rightarrow>
                             conversion_complete
                               (revokeObjectURL url
                                 (click_link url name (registerObjectURL url s2))))
                    | (Rejected, s2) \<Rightarrow> conversion_failed s2
                    | (Pending, s2) \<Rightarrow> s2))"

subsection \<open>The events the rendered widget offers\<close>


subsection \<open>Example inputs\<close>

definition png_file :: File where
  "png_file = \<lparr>file_name = ''photo.png'', file_type = ''image/png'', file_bits = ''PNG''\<rparr>"

definition mp4_file :: File where
  "mp4_file = \<lparr>file_name = ''clip.mp4'', file_type = ''video/mp4'', file_bits = ''MP4''\<rparr>"

definition pdf_file :: File where
  "pdf_file = \<lparr>file_name = ''paper.pdf'', file_type = ''application/pdf'', file_bits = ''PDF''\<rparr>"

text \<open>
  A host on which every call works: the reader loads, decoders fire \<^verbatim>\<open>onload\<close>, the
  canvas encodes \<^verbatim>\<open>png\<close>, \<^verbatim>\<open>jpeg\<close> and \<^verbatim>\<open>webp\<close> and falls back to \<^verbatim>\<open>png\<close> for any other
  type, the recorder supports \<^verbatim>\<open>video/webm\<close> and \<^verbatim>\<open>video/mp4\<close>, and playback reaches the
  end of the media at the third animation frame.
\<close>

definition host_ok :: host where
  "host_ok = \<lparr>readAsDataURL = ReadLoad ''data:;base64,AAAA'',
     createObjectURL = Some ''blob:1'',
     image_loads = True,
     toBlob = (\<lambda>t. Some \<lparr>blob_parts = [''bits''], blob_type = t\<rparr>),
     toDataURL = (\<lambda>t. if t = ''image/png'' \<or> t = ''image/jpeg'' \<or> t = ''image/webp''
        then ''data:'' @ t @ '';base64,BBBB'' else ''data:image/png;base64,BBBB''),
     video_loads = True,
     captureStream = True,
     isTypeSupported = (\<lambda>m. m = ''video/webm'' \<or> m = ''video/mp4''),
     frames = [True, True, False],
     chunks = [''c1'', ''c2'']\<rparr>"

text \<open>The same host at a later call: the next object URL it hands out is a fresh one.\<close>

definition host_later :: host where
  "host_later = host_ok\<lparr>createObjectURL := Some ''blob:2''\<rparr>"

text \<open>The same host, except that the file can no longer be read when the reader gets to it.\<close>

definition host_read_error :: host where
  "host_read_error = host_ok\<lparr>readAsDataURL := ReadError\<rparr>"

text \<open>A session holding a video with its preview, the format \<^verbatim>\<open>ogg\<close> selected.\<close>

definition video_session :: state where
  "video_session = (handleFileChange host_ok mp4_file initial)\<lparr>format := ''ogg''\<rparr>"

text \<open>A session holding an image, the format \<^verbatim>\<open>png\<close> selected.\<close>

definition image_session :: state where
  "image_session = (handleFileChange host_ok png_file initial)\<lparr>format := ''png''\<rparr>"

section \<open>Properties\<close>

lemmas example_defs = initial_def png_file_def mp4_file_def pdf_file_def host_ok_def
  host_later_def host_read_error_def video_session_def image_session_def

lemmas handler_defs = IMAGE_MIME_TYPES_def VIDEO_MIME_TYPES_def toast_invalid_def
  toast_complete_def toast_failed_def registerObjectURL_def revokeObjectURL_def click_link_def
  resetState_def detectFileType_def createPreview_def handleFileChange_def convertImage_def
  convertVideo_def conversion_complete_def conversion_failed_def handleConvert_def

subsection \<open>The frame loop changes nothing but the progress\<close>

lemma drawFrame_only_progress:
  "(snd (drawFrame fs s))\<lparr>progress := p\<rparr> = s\<lparr>progress := p\<rparr>"
  by (induction fs arbitrary: s) (simp_all add: Let_def)

lemma drawFrame_frame:
  "toasts (snd (drawFrame fs s)) = toasts s"
  "converting (snd (drawFrame fs s)) = converting s"
  "downloads (snd (drawFrame fs s)) = downloads s"
  "recorders (snd (drawFrame fs s)) = recorders s"
  "object_urls (snd (drawFrame fs s)) = object_urls s"
  "file (snd (drawFrame fs s)) = file s"
  "format (snd (drawFrame fs s)) = format s"
  by (induction fs arbitrary: s) (simp_all add: Let_def)

lemma drawFrame_toasts: "drawFrame fs s = (d, s') \<Longrightarrow> toasts s' = toasts s"
  using drawFrame_frame(1) [of fs s] by simp

lemma drawFrame_bounds:
  "0 \<le> progress s \<Longrightarrow> progress s \<le> 100 \<Longrightarrow>
   progress s \<le> progress (snd (drawFrame fs s)) \<and> progress (snd (drawFrame fs s)) \<le> 100"
proof (induction fs arbitrary: s)
  case Nil
  then show ?case by simp
next
  case (Cons playing later)
  let ?s1 = "s\<lparr>progress := min (progress s + 1) 100\<rparr>"
  have "0 \<le> progress ?s1" "progress ?s1 \<le> 100" "progress s \<le> progress ?s1"
    using Cons.prems by simp_all
  with Cons.IH [of ?s1] show ?case
    by (cases playing) (auto simp: Let_def)
qed

text \<open>Once the recorder was stopped, later animation frames run no code.\<close>

lemma drawFrame_stopped_take:
  "fst (drawFrame (take k fs) s) \<Longrightarrow> drawFrame (take (Suc k) fs) s = drawFrame (take k fs) s"
proof (induction fs arbitrary: k s)
  case Nil
  then show ?case by simp
next
  case (Cons playing later)
  then show ?case
    by (cases k) (auto simp: Let_def split: if_splits)
qed

lemma drawFrame_take_mono:
  "0 \<le> progress s \<Longrightarrow> progress s \<le> 100 \<Longrightarrow>
   progress (snd (drawFrame (take k fs) s)) \<le> progress (snd (drawFrame (take (Suc k) fs) s))"
proof (induction fs arbitrary: k s)
  case Nil
  then show ?case by simp
next
  case (Cons playing later)
  let ?s1 = "s\<lparr>progress := min (progress s + 1) 100\<rparr>"
  have b: "0 \<le> progress ?s1" "progress ?s1 \<le> 100" "progress s \<le> progress ?s1"
    using Cons.prems by simp_all
  show ?case
  proof (cases k)
    case 0
    have "progress ?s1 \<le> progress (snd (drawFrame (take 0 later) ?s1))" by simp
    with b 0 show ?thesis by (cases playing) (simp_all add: Let_def)
  next
    case (Suc j)
    with Cons.IH [of ?s1 j] b show ?thesis
      by (cases playing) (simp_all add: Let_def)
  qed
qed

subsection \<open>The converters emit no notification\<close>

lemma convertImage_toasts: "toasts (snd (convertImage h f fmt s)) = toasts s"
  by (simp add: convertImage_def registerObjectURL_def split: read_outcome.splits option.splits)

lemma convertVideo_toasts: "toasts (snd (convertVideo h f fmt s)) = toasts s"
  by (auto simp: convertVideo_def Let_def
      split: read_outcome.splits prod.splits bool.splits dest: drawFrame_toasts)

lemma toast_failed_not_complete: "toast_failed \<noteq> toast_complete"
  by (simp add: toast_failed_def toast_complete_def)

subsection \<open>Progress after a successful conversion\<close>

text \<open>
  A conversion whose promise resolves (and, for a video, for which the host then hands out
  an object URL) ends with the notification "Conversion complete".
\<close>

lemma handleConvert_resolved_toast:
  assumes "file s = Some f" "format s \<noteq> []"
    and "type s = Image \<and>
          (\<exists>r. fst (convertImage h f (format s) (s\<lparr>converting := True, progress := 0\<rparr>))
             = Resolved r)
      \<or> type s = Video \<and> createObjectURL h \<noteq> None \<and>
          (\<exists>b. fst (convertVideo h f (format s) (s\<lparr>converting := True, progress := 0\<rparr>))
             = Resolved b)"
  shows "toasts (handleConvert h s) = toasts s @ [toast_complete]"
proof -
  let ?s1 = "s\<lparr>converting := True, progress := 0\<rparr>"
  obtain r s2 where i: "convertImage h f (format s) ?s1 = (r, s2)"
    by (cases "convertImage h f (format s) ?s1")
  obtain r' s2' where v: "convertVideo h f (format s) ?s1 = (r', s2')"
    by (cases "convertVideo h f (format s) ?s1")
  have "toasts s2 = toasts s"
    using convertImage_toasts [of h f "format s" ?s1] i by simp
  moreover have "toasts s2' = toasts s"
    using convertVideo_toasts [of h f "format s" ?s1] v by simp
  ultimately show ?thesis
    using assms i v
    by (auto simp: handleConvert_def Let_def conversion_complete_def click_link_def
        revokeObjectURL_def registerObjectURL_def)
qed

text \<open>
  Claim C10. A successful conversion, of an image as well as of a video, is one at whose
  end \<^verbatim>\<open>handleConvert\<close> emits the notification "Conversion complete". Whenever it does,
  the progress it leaves behind is 100 and the \<^verbatim>\<open>converting\<close> flag is cleared again: the
  \<^verbatim>\<open>finally\<close> block does not touch the progress.
\<close>

theorem handleConvert_complete_progress:
  assumes "toasts (handleConvert h s) = toasts s @ [toast_complete]"
  shows "progress (handleConvert h s) = 100 \<and> \<not> converting (handleConvert h s)"
proof (cases "file s")
  case None
  with assms show ?thesis by (simp add: handleConvert_def)
next
  case (Some f)
  show ?thesis
  proof (cases "format s = []")
    case True
    with assms Some show ?thesis by (simp add: handleConvert_def)
  next
    case False
    let ?s1 = "s\<lparr>converting := True, progress := 0\<rparr>"
    show ?thesis
    proof (cases "type s")
      case Image
      obtain r s2 where c: "convertImage h f (format s) ?s1 = (r, s2)"
        by (cases "convertImage h f (format s) ?s1")
      have "toasts s2 = toasts s"
        using convertImage_toasts [of h f "format s" ?s1] c by simp
      with assms Some False Image c show ?thesis
        by (cases r)
          (simp_all add: handleConvert_def Let_def conversion_complete_def
            conversion_failed_def click_link_def revokeObjectURL_def
            toast_failed_not_complete)
    next
      case Video
      obtain r s2 where c: "convertVideo h f (format s) ?s1 = (r, s2)"
        by (cases "convertVideo h f (format s) ?s1")
      have "toasts s2 = toasts s"
        using convertVideo_toasts [of h f "format s" ?s1] c by simp
      with assms Some False Video c show ?thesis
        by (cases r; cases "createObjectURL h")
          (simp_all add: handleConvert_def Let_def conversion_complete_def
            conversion_failed_def click_link_def revokeObjectURL_def registerObjectURL_def
            toast_failed_not_complete)
    qed
  qed
qed

theorem handleConvert_complete_progress_witness:
  "toasts (handleConvert host_later image_session) = toasts image_session @ [toast_complete]
   \<and> progress (handleConvert host_later image_session) = 100
   \<and> \<not> converting (handleConvert host_later image_session)
   \<and> toasts (handleConvert host_later (video_session\<lparr>format := ''webm''\<rparr>))
       = toasts (video_session\<lparr>format := ''webm''\<rparr>) @ [toast_complete]
   \<and> progress (handleConvert host_later (video_session\<lparr>format := ''webm''\<rparr>)) = 100
   \<and> \<not> converting (handleConvert host_later (video_session\<lparr>format := ''webm''\<rparr>))"
proof -
  have i: "toasts (handleConvert host_later image_session)
      = toasts image_session @ [toast_complete]"
    by (simp add: example_defs handler_defs Let_def)
  have v: "toasts (handleConvert host_later (video_session\<lparr>format := ''webm''\<rparr>))
      = toasts (video_session\<lparr>format := ''webm''\<rparr>) @ [toast_complete]"
    by (simp add: example_defs handler_defs Let_def)
  show ?thesis
    using i v handleConvert_complete_progress [OF i] handleConvert_complete_progress [OF v]
    by simp
qed

subsection \<open>Reset\<close>

text \<open>
  Claim C1, as the code has it. \<^verbatim>\<open>resetState\<close> calls four setters: afterwards there is no
  file, the preview and the format are empty and the progress is 0. It calls neither
  \<^verbatim>\<open>setType\<close> nor \<^verbatim>\<open>URL.revokeObjectURL\<close>: the media kind, the two flags and the set of
  live object URLs are what they were before.
\<close>

theorem resetState_clears_fields_keeps_urls:
  "file (resetState s) = None \<and> progress (resetState s) = 0 \<and> preview (resetState s) = []
   \<and> format (resetState s) = [] \<and> type (resetState s) = type s
   \<and> converting (resetState s) = converting s \<and> loading (resetState s) = loading s
   \<and> object_urls (resetState s) = object_urls s"
  by (simp add: resetState_def)

text \<open>
  Claim C1, as stated, fails for a session that holds a video: the object URL made for its
  preview is live before the reset and still live after it.
\<close>

theorem resetState_keeps_preview_url_counterexample:
  "preview video_session = ''blob:1''
   \<and> ''blob:1'' \<in> set (object_urls video_session)
   \<and> ''blob:1'' \<in> set (object_urls (resetState video_session))"
  by (simp add: example_defs handler_defs)

subsection \<open>Acquisition\<close>

text \<open>
  Claim C8. \<^verbatim>\<open>detectFileType\<close> classifies a file by its declared MIME type: a type of the
  image list gives \<open>Image\<close>, a type of the video list gives \<open>Video\<close>, and the media kind of
  the session is set accordingly. For any other type \<^verbatim>\<open>handleFileChange\<close> emits the
  notification "Invalid file type" and changes nothing else.
\<close>

theorem handleFileChange_classifies:
  "(file_type f \<in> set IMAGE_MIME_TYPES \<longrightarrow>
      fst (detectFileType f s) = Some Image \<and> type (handleFileChange h f s) = Image)
   \<and> (file_type f \<in> set VIDEO_MIME_TYPES \<longrightarrow>
      fst (detectFileType f s) = Some Video \<and> type (handleFileChange h f s) = Video)
   \<and> (file_type f \<notin> set IMAGE_MIME_TYPES \<and> file_type f \<notin> set VIDEO_MIME_TYPES \<longrightarrow>
      fst (detectFileType f s) = None
      \<and> handleFileChange h f s = s\<lparr>toasts := toasts s @ [toast_invalid]\<rparr>)"
proof -
  have disj: "file_type f \<in> set VIDEO_MIME_TYPES \<Longrightarrow> file_type f \<notin> set IMAGE_MIME_TYPES"
    by (auto simp: IMAGE_MIME_TYPES_def VIDEO_MIME_TYPES_def)
  have ty: "type (createPreview h f k s') = type s'" for k s'
    by (simp add: createPreview_def Let_def registerObjectURL_def
        split: ConversionType.splits read_outcome.splits option.splits)
  show ?thesis
    using disj by (auto simp: handleFileChange_def detectFileType_def ty)
qed

theorem handleFileChange_classifies_witness:
  "file_type png_file \<in> set IMAGE_MIME_TYPES
   \<and> type (handleFileChange host_ok png_file video_session) = Image
   \<and> file_type mp4_file \<in> set VIDEO_MIME_TYPES
   \<and> type (handleFileChange host_ok mp4_file initial) = Video
   \<and> file_type pdf_file \<notin> set IMAGE_MIME_TYPES \<and> file_type pdf_file \<notin> set VIDEO_MIME_TYPES
   \<and> handleFileChange host_ok pdf_file initial = initial\<lparr>toasts := [toast_invalid]\<rparr>"
proof -
  have a: "file_type png_file \<in> set IMAGE_MIME_TYPES"
    by (simp add: png_file_def IMAGE_MIME_TYPES_def)
  have b: "file_type mp4_file \<in> set VIDEO_MIME_TYPES"
    by (simp add: mp4_file_def VIDEO_MIME_TYPES_def)
  have c: "file_type pdf_file \<notin> set IMAGE_MIME_TYPES \<and> file_type pdf_file \<notin> set VIDEO_MIME_TYPES"
    by (simp add: pdf_file_def IMAGE_MIME_TYPES_def VIDEO_MIME_TYPES_def)
  have t: "toasts initial = []"
    by (simp add: initial_def)
  show ?thesis
    using a b c t
      handleFileChange_classifies [of png_file video_session host_ok]
      handleFileChange_classifies [of mp4_file initial host_ok]
      handleFileChange_classifies [of pdf_file initial host_ok]
    by simp
qed









subsection \<open>Preview\<close>

text \<open>
  After \<^verbatim>\<open>createPreview\<close> the loading flag is still set in exactly one case: the image
  path, when the reader fires \<^verbatim>\<open>error\<close>. Whenever no data URI or object URL was obtained,
  the preview is what it was before.
\<close>

lemma createPreview_loading:
  "loading (createPreview h f k s) \<longleftrightarrow> k = Image \<and> readAsDataURL h = ReadError"
  by (simp add: createPreview_def Let_def registerObjectURL_def
      split: ConversionType.splits read_outcome.splits option.splits)

lemma createPreview_failure_keeps_preview:
  "(k = Image \<and> (readAsDataURL h = ReadThrows \<or> readAsDataURL h = ReadError))
     \<or> (k = Video \<and> createObjectURL h = None) \<Longrightarrow>
   preview (createPreview h f k s) = preview s"
  by (auto simp: createPreview_def Let_def)

text \<open>
  Claim C4 at a failing input: an image file whose read fails after the call of
  \<^verbatim>\<open>readAsDataURL\<close> returned. The loading flag, not set before, is set by
  \<^verbatim>\<open>createPreview\<close> and never cleared, neither by \<^verbatim>\<open>createPreview\<close> itself nor by
  \<^verbatim>\<open>handleFileChange\<close>, which calls it.
\<close>

theorem createPreview_read_error_keeps_loading:
  "file_type png_file \<in> set IMAGE_MIME_TYPES
   \<and> readAsDataURL host_read_error = ReadError
   \<and> \<not> loading initial
   \<and> loading (createPreview host_read_error png_file Image initial)
   \<and> loading (handleFileChange host_read_error png_file initial)"
  by (simp add: example_defs handler_defs Let_def)

subsection \<open>Conversion\<close>

text \<open>
  Claim C7. With no file held, or with the empty format, \<^verbatim>\<open>handleConvert\<close> returns at
  once: the whole state, the log of notifications included, is unchanged.
\<close>

theorem handleConvert_noop:
  "file s = None \<or> format s = [] \<Longrightarrow> handleConvert h s = s"
  by (auto simp: handleConvert_def split: option.splits)

theorem handleConvert_noop_witness:
  "(file initial = None \<or> format initial = []) \<and> handleConvert host_ok initial = initial
   \<and> (file (image_session\<lparr>format := []\<rparr>) = None \<or> format (image_session\<lparr>format := []\<rparr>) = [])
   \<and> handleConvert host_ok (image_session\<lparr>format := []\<rparr>) = image_session\<lparr>format := []\<rparr>"
proof -
  have a: "file initial = None \<or> format initial = []"
    by (simp add: initial_def)
  have b: "file (image_session\<lparr>format := []\<rparr>) = None
      \<or> format (image_session\<lparr>format := []\<rparr>) = []"
    by simp
  show ?thesis
    using a b handleConvert_noop [OF a, of host_ok] handleConvert_noop [OF b, of host_ok]
    by simp
qed

text \<open>
  Failures that reach \<^verbatim>\<open>reject\<close> are handled as the \<^verbatim>\<open>catch\<close> and \<^verbatim>\<open>finally\<close> blocks
  say: when the file cannot be read or the source cannot be decoded, \<^verbatim>\<open>handleConvert\<close>
  logs, emits "Conversion failed", clears \<^verbatim>\<open>converting\<close> and offers no download.
\<close>

lemma handleConvert_source_failure:
  assumes "file s = Some f" "format s \<noteq> []"
    and "readAsDataURL h = ReadThrows \<or> readAsDataURL h = ReadError
      \<or> (type s = Image \<and> \<not> image_loads h) \<or> (type s = Video \<and> \<not> video_loads h)"
  shows "handleConvert h s = conversion_failed (s\<lparr>converting := True, progress := 0\<rparr>)"
  using assms
  by (cases "type s"; cases "readAsDataURL h")
    (auto simp: handleConvert_def convertImage_def convertVideo_def Let_def)

text \<open>
  Claim C3 at a failing input: a session holding a video with target format \<^verbatim>\<open>ogg\<close>, on a
  host whose recorder does not support \<^verbatim>\<open>video/ogg\<close>. The constructor of the recorder
  throws inside the \<^verbatim>\<open>onloadedmetadata\<close> callback, the promise of \<^verbatim>\<open>convertVideo\<close> never
  settles, and \<^verbatim>\<open>handleConvert\<close> stays at its \<^verbatim>\<open>await\<close>: \<^verbatim>\<open>converting\<close> remains set and
  no notification is emitted.
\<close>

theorem handleConvert_recorder_throws:
  "file video_session = Some mp4_file \<and> format video_session = ''ogg''
   \<and> \<not> isTypeSupported host_later ''video/ogg''
   \<and> converting (handleConvert host_later video_session)
   \<and> toasts (handleConvert host_later video_session) = toasts video_session
   \<and> downloads (handleConvert host_later video_session) = downloads video_session"
  by (simp add: example_defs handler_defs Let_def)

text \<open>
  Claim C9. Once the file is read and the image decoded, \<^verbatim>\<open>convertImage\<close> with a target
  format other than \<^verbatim>\<open>gif\<close> and \<^verbatim>\<open>avif\<close> resolves with what \<^verbatim>\<open>canvas.toDataURL\<close> returns
  for \<^verbatim>\<open>image/<format>\<close>, whatever the format is, and leaves the state unchanged. In a
  session that holds the file as an image with this format selected, \<^verbatim>\<open>handleConvert\<close>
  then offers that string for download as \<^verbatim>\<open>converted.<format>\<close> and completes.
\<close>

theorem convertImage_data_uri:
  assumes "readAsDataURL h = ReadLoad src" "image_loads h" "fmt \<noteq> ''gif''" "fmt \<noteq> ''avif''"
  shows "convertImage h f fmt s = (Resolved (toDataURL h (''image/'' @ fmt)), s)
    \<and> (file s = Some f \<and> type s = Image \<and> format s = fmt \<and> fmt \<noteq> [] \<longrightarrow>
         handleConvert h s =
           conversion_complete
             (click_link (toDataURL h (''image/'' @ fmt)) (''converted.'' @ fmt)
               (s\<lparr>converting := True, progress := 0\<rparr>)))"
  using assms by (simp add: convertImage_def handleConvert_def Let_def)

theorem convertImage_data_uri_witness:
  "readAsDataURL host_ok = ReadLoad ''data:;base64,AAAA'' \<and> image_loads host_ok
   \<and> ''bmp'' \<noteq> ''gif'' \<and> ''bmp'' \<noteq> ''avif''
   \<and> file (image_session\<lparr>format := ''bmp''\<rparr>) = Some png_file
   \<and> type (image_session\<lparr>format := ''bmp''\<rparr>) = Image
   \<and> convertImage host_ok png_file ''bmp'' (image_session\<lparr>format := ''bmp''\<rparr>)
     = (Resolved ''data:image/png;base64,BBBB'', image_session\<lparr>format := ''bmp''\<rparr>)
   \<and> downloads (handleConvert host_ok (image_session\<lparr>format := ''bmp''\<rparr>))
     = [\<lparr>href = ''data:image/png;base64,BBBB'', download = ''converted.bmp''\<rparr>]
   \<and> toasts (handleConvert host_ok (image_session\<lparr>format := ''bmp''\<rparr>)) = [toast_complete]"
proof -
  let ?s = "image_session\<lparr>format := ''bmp''\<rparr>"
  have a: "readAsDataURL host_ok = ReadLoad ''data:;base64,AAAA''" "image_loads host_ok"
    by (simp_all add: host_ok_def)
  have b: "''bmp'' \<noteq> ''gif''" "''bmp'' \<noteq> ''avif''"
    by simp_all
  have c: "toDataURL host_ok (''image/'' @ ''bmp'') = ''data:image/png;base64,BBBB''"
    by (simp add: host_ok_def)
  have d: "file ?s = Some png_file" "type ?s = Image" "format ?s = ''bmp''"
    "downloads ?s = []" "toasts ?s = []"
    by (simp_all add: example_defs handler_defs)
  show ?thesis
    using a b c d convertImage_data_uri [OF a b, of png_file ?s]
    by (simp add: conversion_complete_def click_link_def)
qed

text \<open>
  Claim C5. Whenever \<^verbatim>\<open>convertVideo\<close> resolves, it has constructed one recorder, with
  MIME type \<^verbatim>\<open>video/mp4\<close> when the target format is \<^verbatim>\<open>mov\<close> and \<^verbatim>\<open>video/<format>\<close>
  otherwise, and the blob it resolves with has type \<^verbatim>\<open>video/quicktime\<close> when the target
  format is \<^verbatim>\<open>mov\<close> and \<^verbatim>\<open>video/<format>\<close> otherwise.
\<close>

theorem convertVideo_mov:
  assumes "convertVideo h f fmt s = (Resolved b, s')"
  shows "recorders s' = recorders s @
      [\<lparr>mimeType = ''video/'' @ (if fmt = ''mov'' then ''mp4'' else fmt),
        videoBitsPerSecond = 8000000\<rparr>]
    \<and> blob_type b = (if fmt = ''mov'' then ''video/quicktime'' else ''video/'' @ fmt)"
proof -
  let ?o = "\<lparr>mimeType = ''video/'' @ (if fmt = ''mov'' then ''mp4'' else fmt),
        videoBitsPerSecond = 8000000\<rparr>"
  have r: "recorders (snd (drawFrame (frames h) (s\<lparr>recorders := recorders s @ [?o]\<rparr>)))
      = recorders s @ [?o]"
    by (simp add: drawFrame_frame)
  from assms r show ?thesis
    by (auto simp: convertVideo_def Let_def
        split: read_outcome.splits if_splits prod.splits bool.splits)
qed

theorem convertVideo_mov_witness:
  "fst (convertVideo host_ok mp4_file ''mov'' initial)
     = Resolved \<lparr>blob_parts = [''c1'', ''c2''], blob_type = ''video/quicktime''\<rparr>
   \<and> recorders (snd (convertVideo host_ok mp4_file ''mov'' initial))
     = [\<lparr>mimeType = ''video/mp4'', videoBitsPerSecond = 8000000\<rparr>]
   \<and> fst (convertVideo host_ok mp4_file ''webm'' initial)
     = Resolved \<lparr>blob_parts = [''c1'', ''c2''], blob_type = ''video/webm''\<rparr>
   \<and> recorders (snd (convertVideo host_ok mp4_file ''webm'' initial))
     = [\<lparr>mimeType = ''video/webm'', videoBitsPerSecond = 8000000\<rparr>]"
proof -
  obtain b s' where a: "convertVideo host_ok mp4_file ''mov'' initial = (Resolved b, s')"
    and ab: "blob_parts b = [''c1'', ''c2'']"
    by (simp add: example_defs handler_defs Let_def)
  obtain c s'' where w: "convertVideo host_ok mp4_file ''webm'' initial = (Resolved c, s'')"
    and wc: "blob_parts c = [''c1'', ''c2'']"
    by (simp add: example_defs handler_defs Let_def)
  have r: "recorders initial = []"
    by (simp add: initial_def)
  show ?thesis
    using a ab w wc r convertVideo_mov [OF a] convertVideo_mov [OF w] by simp
qed

subsection \<open>Progress during a video conversion\<close>

lemma handleConvert_video_progress:
  assumes "file s = Some f" "format s \<noteq> []" "type s = Video"
  shows "progress (handleConvert h s) =
     (case convertVideo h f (format s) (s\<lparr>converting := True, progress := 0\<rparr>) of
        (Resolved b, s2) \<Rightarrow> (if createObjectURL h = None then progress s2 else 100)
      | (Rejected, s2) \<Rightarrow> progress s2
      | (Pending, s2) \<Rightarrow> progress s2)"
  using assms
  by (auto simp: handleConvert_def Let_def conversion_complete_def conversion_failed_def
      click_link_def revokeObjectURL_def registerObjectURL_def
      split: prod.splits promise.splits option.splits)

lemma convertVideo_progress:
  "progress (snd (convertVideo h f fmt s)) =
     (if (\<exists>src. readAsDataURL h = ReadLoad src) \<and> video_loads h \<and> captureStream h
         \<and> isTypeSupported h (''video/'' @ (if fmt = ''mov'' then ''mp4'' else fmt))
      then progress (snd (drawFrame (frames h) (s\<lparr>recorders := recorders s @
        [\<lparr>mimeType = ''video/'' @ (if fmt = ''mov'' then ''mp4'' else fmt),
          videoBitsPerSecond = 8000000\<rparr>]\<rparr>)))
      else progress s)"
  by (auto simp: convertVideo_def Let_def split: read_outcome.splits prod.splits bool.splits)

lemma convertVideo_resolved:
  "(\<exists>b. fst (convertVideo h f fmt s) = Resolved b) \<longleftrightarrow>
     (\<exists>src. readAsDataURL h = ReadLoad src) \<and> video_loads h \<and> captureStream h
         \<and> isTypeSupported h (''video/'' @ (if fmt = ''mov'' then ''mp4'' else fmt))
         \<and> fst (drawFrame (frames h) (s\<lparr>recorders := recorders s @
        [\<lparr>mimeType = ''video/'' @ (if fmt = ''mov'' then ''mp4'' else fmt),
          videoBitsPerSecond = 8000000\<rparr>]\<rparr>))"
  by (auto simp: convertVideo_def Let_def split: read_outcome.splits prod.splits bool.splits)

text \<open>
  The state of a video session after the first \<open>k\<close> animation frames of a sequence \<open>fs\<close>
  is \<^verbatim>\<open>handleConvert\<close> on the host that has delivered \<open>take k fs\<close>.
\<close>

lemma video_progress_frames:
  assumes "file s = Some f" "format s \<noteq> []" "type s = Video"
  shows "progress (handleConvert (h\<lparr>frames := []\<rparr>) s) = 0
    \<and> 0 \<le> progress (handleConvert (h\<lparr>frames := take k fs\<rparr>) s)
    \<and> progress (handleConvert (h\<lparr>frames := take k fs\<rparr>) s)
        \<le> progress (handleConvert (h\<lparr>frames := take (Suc k) fs\<rparr>) s)
    \<and> progress (handleConvert (h\<lparr>frames := take k fs\<rparr>) s) \<le> 100
    \<and> progress (snd (drawFrame [playing] s')) = min (progress s' + 1) 100"
proof -
  define opts where "opts =
    \<lparr>mimeType = ''video/'' @ (if format s = ''mov'' then ''mp4'' else format s),
      videoBitsPerSecond = 8000000\<rparr>"
  define s1 where "s1 = s\<lparr>converting := True, progress := 0,
    recorders := recorders s @ [opts]\<rparr>"
  define rec where "rec \<longleftrightarrow> (\<exists>src. readAsDataURL h = ReadLoad src) \<and> video_loads h
     \<and> captureStream h \<and> isTypeSupported h (mimeType opts)"
  let ?s0 = "s\<lparr>converting := True, progress := 0\<rparr>"
  have s1: "0 \<le> progress s1" "progress s1 \<le> 100" "progress s1 = 0"
    by (simp_all add: s1_def)
  have b: "0 \<le> progress (snd (drawFrame fr s1))" "progress (snd (drawFrame fr s1)) \<le> 100"
    for fr
    using drawFrame_bounds [OF s1(1,2), of fr] s1(1) by simp_all
  have P: "progress (handleConvert (h\<lparr>frames := fr\<rparr>) s) =
      (if rec then
         (if fst (drawFrame fr s1) \<and> createObjectURL h \<noteq> None then 100
          else progress (snd (drawFrame fr s1)))
       else 0)" for fr
  proof -
    obtain r s2 where c: "convertVideo (h\<lparr>frames := fr\<rparr>) f (format s) ?s0 = (r, s2)"
      by (cases "convertVideo (h\<lparr>frames := fr\<rparr>) f (format s) ?s0")
    have p: "progress s2 = (if rec then progress (snd (drawFrame fr s1)) else 0)"
      using convertVideo_progress [of "h\<lparr>frames := fr\<rparr>" f "format s" ?s0] c
      by (auto simp: rec_def opts_def s1_def)
    have q: "(\<exists>b. r = Resolved b) \<longleftrightarrow> rec \<and> fst (drawFrame fr s1)"
      using convertVideo_resolved [of "h\<lparr>frames := fr\<rparr>" f "format s" ?s0] c
      by (auto simp: rec_def opts_def s1_def)
    show ?thesis
      using handleConvert_video_progress [OF assms, of "h\<lparr>frames := fr\<rparr>"] c p q
      by (cases r) auto
  qed
  have m: "progress (snd (drawFrame (take k fs) s1))
      \<le> progress (snd (drawFrame (take (Suc k) fs) s1))"
    by (rule drawFrame_take_mono [OF s1(1,2)])
  have st: "fst (drawFrame (take k fs) s1) \<Longrightarrow> fst (drawFrame (take (Suc k) fs) s1)"
    using drawFrame_stopped_take [of k fs s1] by simp
  have "progress (handleConvert (h\<lparr>frames := []\<rparr>) s) = 0"
    by (simp add: P s1(3))
  moreover have "0 \<le> progress (handleConvert (h\<lparr>frames := take k fs\<rparr>) s)"
    using b by (simp add: P)
  moreover have "progress (handleConvert (h\<lparr>frames := take k fs\<rparr>) s) \<le> 100"
    using b by (simp add: P)
  moreover have "progress (handleConvert (h\<lparr>frames := take k fs\<rparr>) s)
        \<le> progress (handleConvert (h\<lparr>frames := take (Suc k) fs\<rparr>) s)"
    using b [of "take (Suc k) fs"] m st unfolding P by auto
  moreover have "progress (snd (drawFrame [playing] s')) = min (progress s' + 1) 100"
    by (simp add: Let_def)
  ultimately show ?thesis by simp
qed

lemma convertImage_progress: "progress (snd (convertImage h f fmt s)) = progress s"
  by (simp add: convertImage_def registerObjectURL_def split: read_outcome.splits option.splits)

text \<open>
  The progress a session had before an attempt does not survive it.
\<close>

lemma handleConvert_forgets_progress:
  assumes "file s = Some f" "format s \<noteq> []"
  shows "handleConvert h (s\<lparr>progress := p\<rparr>) = handleConvert h s"
  using assms
  by (simp add: handleConvert_def Let_def
      split: ConversionType.splits prod.splits promise.splits)

text \<open>
  Before the first animation frame, an attempt has either completed already (an image
  conversion), with progress 100, or its progress is 0.
\<close>

lemma handleConvert_reset:
  assumes "file s = Some f" "format s \<noteq> []"
  shows "progress (handleConvert (h\<lparr>frames := []\<rparr>) s) =
     (if toasts (handleConvert (h\<lparr>frames := []\<rparr>) s) = toasts s @ [toast_complete]
      then 100 else 0)"
proof (cases "type s")
  case Image
  let ?h = "h\<lparr>frames := []\<rparr>"
  let ?s1 = "s\<lparr>converting := True, progress := 0\<rparr>"
  obtain r s2 where c: "convertImage ?h f (format s) ?s1 = (r, s2)"
    by (cases "convertImage ?h f (format s) ?s1")
  have "toasts s2 = toasts s" "progress s2 = 0"
    using convertImage_toasts [of ?h f "format s" ?s1]
      convertImage_progress [of ?h f "format s" ?s1] c by simp_all
  with assms Image c show ?thesis
    by (cases r)
      (simp_all add: handleConvert_def Let_def conversion_complete_def
        conversion_failed_def click_link_def revokeObjectURL_def
        toast_failed_not_complete)
next
  case Video
  let ?h = "h\<lparr>frames := []\<rparr>"
  let ?s1 = "s\<lparr>converting := True, progress := 0\<rparr>"
  obtain r s2 where c: "convertVideo ?h f (format s) ?s1 = (r, s2)"
    by (cases "convertVideo ?h f (format s) ?s1")
  have t: "toasts s2 = toasts s"
    using convertVideo_toasts [of ?h f "format s" ?s1] c by simp
  have p: "progress s2 = 0"
    using convertVideo_progress [of ?h f "format s" ?s1] c by (simp split: if_splits)
  have n: "\<nexists>b. r = Resolved b"
    using convertVideo_resolved [of ?h f "format s" ?s1] c by simp
  from assms Video c t p n show ?thesis
    by (cases r)
      (auto simp: handleConvert_def Let_def conversion_failed_def
        toast_failed_not_complete)
qed

text \<open>
  Claim C6. Take a conversion attempt: a file is held and the format is not empty, whatever
  the media kind.
  \<^item> The progress is reset at the start: the outcome of the attempt does not depend on the
    progress the session had before, and before any animation frame has run the progress
    is 0, unless the conversion has completed by then, which sets it to 100.
  \<^item> For a video, take any sequence \<open>fs\<close> of animation frames; the state of the session
    after the first \<open>k\<close> of them is \<^verbatim>\<open>handleConvert\<close> on the host that has delivered
    \<open>take k fs\<close>. Before any frame the progress is 0; after \<open>k\<close> frames it lies between 0
    and 100; one more frame never lowers it.
  \<^item> One run of \<^verbatim>\<open>drawFrame\<close> sets the progress to the minimum of its successor and 100.
\<close>

theorem conversion_progress_reset_and_monotone:
  assumes "file s = Some f" "format s \<noteq> []"
  shows "handleConvert h (s\<lparr>progress := p\<rparr>) = handleConvert h s
    \<and> progress (handleConvert (h\<lparr>frames := []\<rparr>) s) =
        (if toasts (handleConvert (h\<lparr>frames := []\<rparr>) s) = toasts s @ [toast_complete]
         then 100 else 0)
    \<and> (type s = Video \<longrightarrow>
          progress (handleConvert (h\<lparr>frames := []\<rparr>) s) = 0
        \<and> 0 \<le> progress (handleConvert (h\<lparr>frames := take k fs\<rparr>) s)
        \<and> progress (handleConvert (h\<lparr>frames := take k fs\<rparr>) s)
            \<le> progress (handleConvert (h\<lparr>frames := take (Suc k) fs\<rparr>) s)
        \<and> progress (handleConvert (h\<lparr>frames := take k fs\<rparr>) s) \<le> 100)
    \<and> progress (snd (drawFrame [playing] s')) = min (progress s' + 1) 100"
proof -
  have "type s = Video \<longrightarrow>
          progress (handleConvert (h\<lparr>frames := []\<rparr>) s) = 0
        \<and> 0 \<le> progress (handleConvert (h\<lparr>frames := take k fs\<rparr>) s)
        \<and> progress (handleConvert (h\<lparr>frames := take k fs\<rparr>) s)
            \<le> progress (handleConvert (h\<lparr>frames := take (Suc k) fs\<rparr>) s)
        \<and> progress (handleConvert (h\<lparr>frames := take k fs\<rparr>) s) \<le> 100"
    using video_progress_frames [OF assms, of h k fs] by simp
  moreover have "progress (snd (drawFrame [playing] s')) = min (progress s' + 1) 100"
    by (simp add: Let_def)
  ultimately show ?thesis
    using handleConvert_forgets_progress [OF assms, of h p] handleConvert_reset [OF assms, of h]
    by simp
qed

text \<open>
  A video session converting to \<^verbatim>\<open>webm\<close>: progress 0 before any frame, 2 after two frames,
  100 once the third frame has ended the recording. An image session whose progress is
  still 100 from an earlier conversion, converting again: on a host that cannot read the
  file the attempt fails and the progress is 0; on a host that can, it completes with
  progress 100.
\<close>

theorem conversion_progress_reset_and_monotone_witness:
  "file (video_session\<lparr>format := ''webm''\<rparr>) = Some mp4_file
   \<and> format (video_session\<lparr>format := ''webm''\<rparr>) \<noteq> []
   \<and> type (video_session\<lparr>format := ''webm''\<rparr>) = Video
   \<and> progress (handleConvert (host_later\<lparr>frames := []\<rparr>) (video_session\<lparr>format := ''webm''\<rparr>)) = 0
   \<and> progress (handleConvert (host_later\<lparr>frames := take 2 [True, True, False]\<rparr>)
        (video_session\<lparr>format := ''webm''\<rparr>)) = 2
   \<and> progress (handleConvert (host_later\<lparr>frames := take (Suc 2) [True, True, False]\<rparr>)
        (video_session\<lparr>format := ''webm''\<rparr>)) = 100
   \<and> progress (snd (drawFrame [True] (initial\<lparr>progress := 100\<rparr>))) = 100
   \<and> file (image_session\<lparr>progress := 100\<rparr>) = Some png_file
   \<and> format (image_session\<lparr>progress := 100\<rparr>) \<noteq> []
   \<and> type (image_session\<lparr>progress := 100\<rparr>) = Image
   \<and> toasts (handleConvert (host_read_error\<lparr>frames := []\<rparr>) (image_session\<lparr>progress := 100\<rparr>))
       \<noteq> toasts (image_session\<lparr>progress := 100\<rparr>) @ [toast_complete]
   \<and> progress (handleConvert (host_read_error\<lparr>frames := []\<rparr>) (image_session\<lparr>progress := 100\<rparr>)) = 0
   \<and> toasts (handleConvert (host_later\<lparr>frames := []\<rparr>) (image_session\<lparr>progress := 100\<rparr>))
       = toasts (image_session\<lparr>progress := 100\<rparr>) @ [toast_complete]
   \<and> progress (handleConvert (host_later\<lparr>frames := []\<rparr>) (image_session\<lparr>progress := 100\<rparr>)) = 100"
proof -
  let ?s = "video_session\<lparr>format := ''webm''\<rparr>"
  let ?i = "image_session\<lparr>progress := 100\<rparr>"
  have a: "file ?s = Some mp4_file" "format ?s \<noteq> []"
    by (simp_all add: example_defs handler_defs)
  have v: "type ?s = Video"
    by (simp add: example_defs handler_defs)
  have two: "take 2 [True, True, False] = [True, True]"
    by (simp add: numeral_2_eq_2)
  have k: "progress (handleConvert (host_later\<lparr>frames := [True, True]\<rparr>) ?s) = 2"
    by (simp add: example_defs handler_defs Let_def)
  have k': "progress (handleConvert (host_later\<lparr>frames := [True, True, False]\<rparr>) ?s) = 100"
    by (simp add: example_defs handler_defs Let_def)
  have b: "file ?i = Some png_file" "format ?i \<noteq> []"
    by (simp_all add: example_defs handler_defs)
  have i: "type ?i = Image"
    by (simp add: example_defs handler_defs)
  have n: "toasts (handleConvert (host_read_error\<lparr>frames := []\<rparr>) ?i)
      \<noteq> toasts ?i @ [toast_complete]"
    by (simp add: example_defs handler_defs Let_def)
  have c: "toasts (handleConvert (host_later\<lparr>frames := []\<rparr>) ?i)
      = toasts ?i @ [toast_complete]"
    by (simp add: example_defs handler_defs Let_def)
  show ?thesis
    using a v two k k' b i n c
      conversion_progress_reset_and_monotone [OF a, of host_later 0 2 "[True, True, False]" True
        "initial\<lparr>progress := 100\<rparr>"]
      conversion_progress_reset_and_monotone [OF b, of "host_read_error\<lparr>frames := []\<rparr>" 0 0 "[]" True
        initial]
      conversion_progress_reset_and_monotone [OF b, of "host_later\<lparr>frames := []\<rparr>" 0 0 "[]" True
        initial]
    by simp
qed

end
